theory Spec2Isabelle
  imports Main
begin

section \<open>Python values and the built-ins the client relies on\<close>

text \<open>
  The client is a single Python module, \<^verbatim>\<open>Arduino/arduino.py\<close>. Its methods take pin
  numbers, strings and the occasional \<^verbatim>\<open>None\<close>; every argument of a command is passed
  through \<^verbatim>\<open>str\<close> before it is put on the wire. Arguments are therefore modelled by a
  small datatype and \<^verbatim>\<open>str\<close> by \<open>py_str\<close>. A \<open>string\<close> is a list of bytes:
  the raw line read from the device, or a text kept as its UTF-8 bytes.
\<close>

datatype arg = ANone | AInt int | AStr string

text \<open>Return values of the methods. A float obtained by \<^verbatim>\<open>float(text)\<close> is kept as the
  text it was read from, and the float quotient \<^verbatim>\<open>a / b\<close> of two integers as the pair:
  the numeric value of a float plays no role in what follows.\<close>

datatype pyval = PNone | PBool bool | PInt int | PStr string | PFloatOf string | PFloatDiv int int

text \<open>Exceptions. \<open>KeyError\<close> carries the missing key, the others their message or the
  name involved. \<open>UnboundLocalError\<close> is Python's subclass of \<open>NameError\<close> for a local
  name read before it is bound. \<open>SerialError\<close> stands for whatever the byte stream
  raises on a failed write or flush.\<close>

datatype py_error =
    KeyError int
  | ValueError string
  | TypeError string
  | UnboundLocalError string
  | UnicodeDecodeError
  | IndentationError string
  | SerialError

definition digit_char :: "nat \<Rightarrow> char" where
  "digit_char d = ''0123456789'' ! (d mod 10)"

fun str_nat :: "nat \<Rightarrow> string" where
  "str_nat n = (if n < 10 then [digit_char n] else str_nat (n div 10) @ [digit_char (n mod 10)])"

declare str_nat.simps [simp del]

definition str_int :: "int \<Rightarrow> string" where
  "str_int i = (if i < 0 then CHR ''-'' # str_nat (nat (- i)) else str_nat (nat i))"

fun py_str :: "arg \<Rightarrow> string" where
  "py_str ANone = ''None''"
| "py_str (AInt i) = str_int i"
| "py_str (AStr s) = s"

text \<open>\<^verbatim>\<open>sep.join(xs)\<close>\<close>

fun join :: "string \<Rightarrow> string list \<Rightarrow> string" where
  "join sep [] = []"
| "join sep [x] = x"
| "join sep (x # y # ys) = x @ sep @ join sep (y # ys)"

text \<open>\<^verbatim>\<open>s.upper()\<close> and \<^verbatim>\<open>s.lower()\<close> on ASCII text (mode names, levels, bit orders
  and the words \<^verbatim>\<open>float\<close> knows): a letter is looked up in the alphabet, every other
  character is kept.\<close>

definition upper_char :: "char \<Rightarrow> char" where
  "upper_char c =
     (case map_of (zip ''abcdefghijklmnopqrstuvwxyz'' ''ABCDEFGHIJKLMNOPQRSTUVWXYZ'') c of
        Some u \<Rightarrow> u
      | None \<Rightarrow> c)"

definition upper :: "string \<Rightarrow> string" where
  "upper s = map upper_char s"

definition lower_char :: "char \<Rightarrow> char" where
  "lower_char c =
     (case map_of (zip ''ABCDEFGHIJKLMNOPQRSTUVWXYZ'' ''abcdefghijklmnopqrstuvwxyz'') c of
        Some l \<Rightarrow> l
      | None \<Rightarrow> c)"

definition lower :: "string \<Rightarrow> string" where
  "lower s = map lower_char s"

text \<open>
  Three things that \<^verbatim>\<open>int\<close>, \<^verbatim>\<open>float\<close> and \<^verbatim>\<open>str.isdigit\<close> do are decided by the
  interpreter and not by the module: the limit on the number of digits \<^verbatim>\<open>int\<close> accepts
  (\<^verbatim>\<open>sys.get_int_max_str_digits()\<close>: 4300 unless changed, 0 for no limit, applied to
  texts of more than 640 digits), and their answer on a text with a character outside
  ASCII, which depends on the Unicode tables (\<^verbatim>\<open>int\<close> and \<^verbatim>\<open>float\<close> accept other
  decimal digits and blanks there). These are parameters of the model; on ASCII text
  the three functions are written out. A text is kept as its UTF-8 bytes, so it is ASCII
  when every byte is below 128.
\<close>

record interp =
  int_max_str_digits :: nat
  int_unicode :: "string \<Rightarrow> int option"
  float_unicode :: "string \<Rightarrow> bool"
  isdigit_unicode :: "string \<Rightarrow> bool"

text \<open>\<^verbatim>\<open>s.isdigit()\<close> on ASCII text: non-empty and made of decimal digits only.\<close>

definition is_digit :: "char \<Rightarrow> bool" where
  "is_digit c = (c \<in> set ''0123456789'')"

definition is_ascii :: "string \<Rightarrow> bool" where
  "is_ascii s = list_all (\<lambda>c. (of_char c :: nat) < 128) s"

definition isdigit :: "interp \<Rightarrow> string \<Rightarrow> bool" where
  "isdigit I s =
     (if is_ascii s then s \<noteq> [] \<and> list_all is_digit s else isdigit_unicode I s)"

text \<open>
  \<^verbatim>\<open>int(text)\<close> on ASCII text: blanks (tab, line feed, vertical tab, form feed, carriage
  return, space) are dropped at both ends, one sign is allowed, and the digits may be
  grouped by single underscores; more digits than the interpreter's limit are refused.
  Anything else is a \<^verbatim>\<open>ValueError\<close>, here \<open>None\<close>.
\<close>

definition is_space :: "char \<Rightarrow> bool" where
  "is_space c = (c \<in> set [CHR 0x09, CHR 0x0A, CHR 0x0B, CHR 0x0C, CHR 0x0D, CHR 0x20])"

definition strip :: "string \<Rightarrow> string" where
  "strip s = rev (dropWhile is_space (rev (dropWhile is_space s)))"

fun group_digits :: "string \<Rightarrow> string option" where
  "group_digits [] = None"
| "group_digits [c] = (if is_digit c then Some [c] else None)"
| "group_digits (c # d # r) =
     (if is_digit c
      then (if d = CHR ''_'' then map_option (Cons c) (group_digits r)
            else map_option (Cons c) (group_digits (d # r)))
      else None)"

definition digit_val :: "char \<Rightarrow> nat" where
  "digit_val c =
     (case map_of (zip ''0123456789'' [0, 1, 2, 3, 4, 5, 6, 7, 8, 9]) c of
        Some v \<Rightarrow> v
      | None \<Rightarrow> 0)"

definition nat_of_digits :: "string \<Rightarrow> nat" where
  "nat_of_digits ds = foldl (\<lambda>acc c. 10 * acc + digit_val c) 0 ds"

definition too_many_digits :: "interp \<Rightarrow> nat \<Rightarrow> bool" where
  "too_many_digits I n = (640 < n \<and> 0 < int_max_str_digits I \<and> int_max_str_digits I < n)"

definition digits_value :: "interp \<Rightarrow> string \<Rightarrow> nat option" where
  "digits_value I ds =
     (case group_digits ds of
        None \<Rightarrow> None
      | Some g \<Rightarrow> if too_many_digits I (length g) then None else Some (nat_of_digits g))"

definition py_int :: "interp \<Rightarrow> string \<Rightarrow> int option" where
  "py_int I s =
     (if is_ascii s then
        (case strip s of
           [] \<Rightarrow> None
         | c # r \<Rightarrow>
             if c = CHR ''-'' then map_option (\<lambda>n. - int n) (digits_value I r)
             else if c = CHR ''+'' then map_option int (digits_value I r)
             else map_option int (digits_value I (c # r)))
      else int_unicode I s)"

text \<open>
  \<^verbatim>\<open>float(text)\<close> on ASCII text accepts, after the same stripping and an optional sign,
  the words \<^verbatim>\<open>inf\<close>, \<^verbatim>\<open>infinity\<close> and \<^verbatim>\<open>nan\<close> in any case, or a decimal numeral: digits
  with an optional fraction and an optional exponent, at least one digit before or after
  the point. Only acceptance matters here, so the result keeps the stripped text.
\<close>

fun split_at :: "(char \<Rightarrow> bool) \<Rightarrow> string \<Rightarrow> string \<times> string option" where
  "split_at p [] = ([], None)"
| "split_at p (c # r) =
     (if p c then ([], Some r)
      else (case split_at p r of (a, rest) \<Rightarrow> (c # a, rest)))"

definition digitpart_ok :: "string \<Rightarrow> bool" where
  "digitpart_ok s = (group_digits s \<noteq> None)"

definition mantissa_ok :: "string \<Rightarrow> bool" where
  "mantissa_ok m =
     (case split_at (\<lambda>c. c = CHR ''.'') m of
        (i, None) \<Rightarrow> digitpart_ok i
      | (i, Some f) \<Rightarrow>
          if i = [] then digitpart_ok f
          else if f = [] then digitpart_ok i
          else digitpart_ok i \<and> digitpart_ok f)"

definition exponent_ok :: "string \<Rightarrow> bool" where
  "exponent_ok e =
     (case e of
        [] \<Rightarrow> False
      | c # r \<Rightarrow> if c = CHR ''+'' \<or> c = CHR ''-'' then digitpart_ok r else digitpart_ok (c # r))"

definition unsigned_float_ok :: "string \<Rightarrow> bool" where
  "unsigned_float_ok u =
     (if lower u \<in> set [''inf'', ''infinity'', ''nan''] then True
      else (case split_at (\<lambda>c. c = CHR ''e'' \<or> c = CHR ''E'') u of
              (m, None) \<Rightarrow> mantissa_ok m
            | (m, Some e) \<Rightarrow> mantissa_ok m \<and> exponent_ok e))"

definition py_float :: "interp \<Rightarrow> string \<Rightarrow> pyval option" where
  "py_float I s =
     (if is_ascii s then
        (case strip s of
           [] \<Rightarrow> None
         | c # r \<Rightarrow>
             if (if c = CHR ''+'' \<or> c = CHR ''-'' then unsigned_float_ok r
                 else unsigned_float_ok (c # r))
             then Some (PFloatOf (c # r))
             else None)
      else if float_unicode I s then Some (PFloatOf s) else None)"

section \<open>Command codec\<close>

text \<open>
  \<^verbatim>\<open>
  def build_cmd_str(cmd, args=None):
      cmd = str(cmd)
      if args:
          args = '%'.join(map(str, args))
      else:
          args = ''
      return "@" + cmd + "%" + args + "$!"      # an f-string in the source
  \<close>
  The optional parameter is an \<open>option\<close>; \<^verbatim>\<open>if args\<close> is false for \<^verbatim>\<open>None\<close> and for
  an empty sequence.
\<close>

definition build_cmd_str :: "string \<Rightarrow> arg list option \<Rightarrow> string" where
  "build_cmd_str cmd args =
     (let args' = (case args of
                     None \<Rightarrow> ''''
                   | Some [] \<Rightarrow> ''''
                   | Some (a # as) \<Rightarrow> join ''%'' (map py_str (a # as)))
      in ''@'' @ cmd @ ''%'' @ args' @ ''$!'')"

section \<open>The serial stream\<close>

text \<open>
  The stream is supplied by the serial library and is used through \<^verbatim>\<open>readline\<close>,
  \<^verbatim>\<open>write\<close> and \<^verbatim>\<open>flush\<close> only. Its model holds the raw lines the device will
  send (when none is left \<^verbatim>\<open>readline\<close> times out and returns the empty text), the
  payloads handed to \<^verbatim>\<open>write\<close> in the order they were sent, and two flags telling
  whether \<^verbatim>\<open>write\<close> and \<^verbatim>\<open>flush\<close> raise.
\<close>

record serial =
  incoming :: "string list"
  written :: "string list"
  write_err :: bool
  flush_err :: bool

definition crlf :: string where
  "crlf = [CHR 0x0D, CHR 0x0A]"

definition readline :: "serial \<Rightarrow> string \<times> serial" where
  "readline s =
     (case incoming s of
        [] \<Rightarrow> ('''', s)
      | l # ls \<Rightarrow> (l, s\<lparr>incoming := ls\<rparr>))"

definition sr_write :: "serial \<Rightarrow> string \<Rightarrow> py_error + serial" where
  "sr_write s data =
     (if write_err s then Inl SerialError else Inr (s\<lparr>written := written s @ [data]\<rparr>))"

definition sr_flush :: "serial \<Rightarrow> py_error + serial" where
  "sr_flush s = (if flush_err s then Inl SerialError else Inr s)"

text \<open>\<^verbatim>\<open>t.replace("\r\n", "")\<close>\<close>

fun replace_crlf :: "string \<Rightarrow> string" where
  "replace_crlf (c # d # r) =
     (if c = CHR 0x0D \<and> d = CHR 0x0A then replace_crlf r else c # replace_crlf (d # r))"
| "replace_crlf t = t"

text \<open>
  \<^verbatim>\<open>bytes.decode("utf-8")\<close> raises \<^verbatim>\<open>UnicodeDecodeError\<close> unless the bytes are well-formed
  UTF-8: a byte below 128, or a lead byte followed by the continuation bytes it calls
  for, without overlong forms, surrogates or code points above 10FFFF. The decoded text
  is kept as these bytes.
\<close>

definition cont :: "nat \<Rightarrow> bool" where
  "cont b = (128 \<le> b \<and> b \<le> 191)"

fun utf8_bytes_ok :: "nat list \<Rightarrow> bool" where
  "utf8_bytes_ok [] = True"
| "utf8_bytes_ok (a # r) =
     (if a < 128 then utf8_bytes_ok r
      else if 194 \<le> a \<and> a \<le> 223 then
        (case r of b # r1 \<Rightarrow> cont b \<and> utf8_bytes_ok r1 | _ \<Rightarrow> False)
      else if 224 \<le> a \<and> a \<le> 239 then
        (case r of
           b # c # r2 \<Rightarrow>
             (if a = 224 then 160 \<le> b \<and> b \<le> 191
              else if a = 237 then 128 \<le> b \<and> b \<le> 159
              else cont b)
             \<and> cont c \<and> utf8_bytes_ok r2
         | _ \<Rightarrow> False)
      else if 240 \<le> a \<and> a \<le> 244 then
        (case r of
           b # c # d # r3 \<Rightarrow>
             (if a = 240 then 144 \<le> b \<and> b \<le> 191
              else if a = 244 then 128 \<le> b \<and> b \<le> 143
              else cont b)
             \<and> cont c \<and> cont d \<and> utf8_bytes_ok r3
         | _ \<Rightarrow> False)
      else False)"

definition utf8_ok :: "string \<Rightarrow> bool" where
  "utf8_ok raw = utf8_bytes_ok (map of_char raw)"

definition decode :: "string \<Rightarrow> py_error + string" where
  "decode raw = (if utf8_ok raw then Inr raw else Inl UnicodeDecodeError)"

text \<open>
  \<^verbatim>\<open>
  def rd(sr):
      t = sr.readline().decode("utf-8").replace("\r\n", "")
      return t
  \<close>
  The line is decoded outside any \<^verbatim>\<open>try\<close>: a line that is not UTF-8 makes \<^verbatim>\<open>rd\<close> raise,
  after the line has been taken from the stream.
\<close>

definition rd :: "serial \<Rightarrow> (py_error + string) \<times> serial" where
  "rd s =
     (case readline s of (raw, s') \<Rightarrow>
        (case decode raw of
           Inl e \<Rightarrow> (Inl e, s')
         | Inr t \<Rightarrow> (Inr (replace_crlf t), s')))"

text \<open>
  \<^verbatim>\<open>
  def write_and_flush(sr, data, raise_error=False):
      try:
          sr.write(data)
          sr.flush()
      except BaseException as e:
          if raise_error:
              print(f'data = {data}')
              raise e
          pass
  \<close>
  The line printed before the exception is raised again is not recorded.
\<close>

definition write_and_flush :: "serial \<Rightarrow> string \<Rightarrow> bool \<Rightarrow> (py_error + unit) \<times> serial" where
  "write_and_flush s data raise_error =
     (case sr_write s data of
        Inl e \<Rightarrow> (if raise_error then Inl e else Inr (), s)
      | Inr s' \<Rightarrow>
          (case sr_flush s' of
             Inl e \<Rightarrow> (if raise_error then Inl e else Inr (), s')
           | Inr s'' \<Rightarrow> (Inr (), s'')))"

text \<open>
  Every caller passes the stream and the frame by position and, sometimes, a flag by
  keyword. Python binds a keyword to the parameter of that name and raises
  \<^verbatim>\<open>TypeError\<close> before the body runs when there is no such parameter, or when the
  parameter already has its positional value.
\<close>

definition sq :: string where
  "sq = [CHR 0x27]"

definition write_and_flush_params :: "string list" where
  "write_and_flush_params = [''sr'', ''data'', ''raise_error'']"

definition call_write_and_flush ::
  "serial \<Rightarrow> string \<Rightarrow> (string \<times> bool) list \<Rightarrow> (py_error + unit) \<times> serial" where
  "call_write_and_flush s data kwargs =
     (case filter (\<lambda>kv. fst kv \<notin> set write_and_flush_params) kwargs of
        kv # _ \<Rightarrow>
          (Inl (TypeError (''write_and_flush() got an unexpected keyword argument ''
                           @ sq @ fst kv @ sq)), s)
      | [] \<Rightarrow>
          (case filter (\<lambda>kv. fst kv \<in> set [''sr'', ''data'']) kwargs of
             kv # _ \<Rightarrow>
               (Inl (TypeError (''write_and_flush() got multiple values for argument ''
                                @ sq @ fst kv @ sq)), s)
           | [] \<Rightarrow>
               write_and_flush s data
                 (case map_of kwargs ''raise_error'' of Some f \<Rightarrow> f | None \<Rightarrow> False)))"

section \<open>Version handshake\<close>

definition libraryVersion :: string where
  "libraryVersion = ''V0.6''"

text \<open>
  \<^verbatim>\<open>
  def get_version(sr):
      cmd_str = build_cmd_str("version")
      try:
          sr.write(str.encode(cmd_str))
          sr.flush()
      except Exception:
          return None
      return sr.readline().decode("utf-8").replace("\r\n", "")
  \<close>
  The reply is read and decoded after the \<^verbatim>\<open>try\<close>, so a reply that is not UTF-8 makes
  \<^verbatim>\<open>get_version\<close> raise; neither \<^verbatim>\<open>find_port\<close> nor \<^verbatim>\<open>__init__\<close> catches it.
\<close>

definition get_version :: "serial \<Rightarrow> (py_error + string option) \<times> serial" where
  "get_version s =
     (let cmd_str = build_cmd_str ''version'' None
      in case sr_write s cmd_str of
           Inl e \<Rightarrow> (Inr None, s)
         | Inr s' \<Rightarrow>
             (case sr_flush s' of
                Inl e \<Rightarrow> (Inr None, s')
              | Inr s'' \<Rightarrow>
                  (case readline s'' of (raw, s3) \<Rightarrow>
                     (case decode raw of
                        Inl e \<Rightarrow> (Inl e, s3)
                      | Inr t \<Rightarrow> (Inr (Some (replace_crlf t)), s3)))))"

text \<open>The four lines printed by both connection paths when the sketch answers with
  another version. \<^verbatim>\<open>print\<close> joins its arguments with a blank.\<close>

definition version_warning :: "string option \<Rightarrow> string list" where
  "version_warning version =
     [''You need to update the version of the Arduino-Python3 library running on your Arduino.'',
      ''The Arduino sketch is '' @ (case version of None \<Rightarrow> ''None'' | Some v \<Rightarrow> v),
      ''The Python installation is '' @ libraryVersion,
      ''Flash the prototype sketch again.'']"

text \<open>
  \<^verbatim>\<open>
  try:
      ver = version[0]
  except Exception:
      ver = ''
  if ver == 'V' or version == "version":
  \<close>
\<close>

definition looks_like_version :: "string option \<Rightarrow> bool" where
  "looks_like_version version =
     (let ver = (case version of
                   None \<Rightarrow> ''''
                 | Some [] \<Rightarrow> ''''
                 | Some (c # _) \<Rightarrow> [c])
      in ver = ''V'' \<or> version = Some ''version'')"

text \<open>
  \<^verbatim>\<open>find_port\<close> walks the candidate ports of the platform. Opening a port either
  raises \<^verbatim>\<open>SerialException\<close>/\<^verbatim>\<open>OSError\<close> (\<open>None\<close>) or gives a stream. The
  result is the stream found, if any, or the exception \<^verbatim>\<open>get_version\<close> raised, with the
  lines printed.
\<close>

fun find_port ::
  "(string \<Rightarrow> serial option) \<Rightarrow> string list \<Rightarrow> (py_error + serial option) \<times> string list" where
  "find_port opn [] = (Inr None, [])"
| "find_port opn (port # ports) =
     (case opn port of
        None \<Rightarrow> find_port opn ports
      | Some s0 \<Rightarrow>
          (case readline s0 of (_, s1) \<Rightarrow>
           case get_version s1 of
             (Inl e, s2) \<Rightarrow> (Inl e, [])
           | (Inr version, s2) \<Rightarrow>
               if version \<noteq> Some libraryVersion then
                 (if looks_like_version version then (Inr (Some s2), version_warning version)
                  else find_port opn ports)
               else (Inr (Some s2), [])))"

section \<open>The board object\<close>

text \<open>
  \<^verbatim>\<open>Arduino.__init__\<close> stores the stream and creates the helper objects
  \<^verbatim>\<open>SoftwareSerial\<close>, \<^verbatim>\<open>Servos\<close> and \<^verbatim>\<open>EEPROM\<close>, which all keep a reference to the
  same stream. Their fields are collected in one record: the stream, the pin modes
  (\<^verbatim>\<open>self.pinModeDic\<close>), the servo bindings (\<^verbatim>\<open>Servos.servo_pos\<close>) and the
  software-serial flag (\<^verbatim>\<open>SoftwareSerial.connected\<close>).
\<close>

record board =
  sr :: serial
  pinModeDic :: "int \<rightharpoonup> string"
  servo_pos :: "int \<rightharpoonup> int"
  connected :: bool

definition new_board :: "serial \<Rightarrow> board" where
  "new_board s = \<lparr>sr = s, pinModeDic = Map.empty, servo_pos = Map.empty, connected = False\<rparr>"

text \<open>
  \<^verbatim>\<open>
  def __init__(self, baud=115200, port=None, timeout=2, sr=None):
      if not sr:
          if not port:
              sr = find_port(baud, timeout)
              if not sr:
                  raise ValueError("Could not find port.")
          else:
              sr = serial.Serial(port, baud, timeout=timeout)
              sr.readline()
              version = get_version(sr)
              if version != libraryVersion:
                  try:
                      ver = version[0]
                  except Exception:
                      ver = ''
                  if ver == 'V' or version == "version":
                      print(...)   # the four lines
      sr.flush()
      self.sr = sr
      ...
      self.pinModeDic = {}
  \<close>
  The result is the new object or the exception raised, with the lines printed.
\<close>

definition finish_init :: "serial \<Rightarrow> string list \<Rightarrow> (py_error + board) \<times> string list" where
  "finish_init s out =
     (case sr_flush s of
        Inl e \<Rightarrow> (Inl e, out)
      | Inr s' \<Rightarrow> (Inr (new_board s'), out))"

definition Arduino_init ::
  "(string \<Rightarrow> serial option) \<Rightarrow> string list \<Rightarrow> string option \<Rightarrow> serial option
     \<Rightarrow> (py_error + board) \<times> string list" where
  "Arduino_init opn candidates port sr0 =
     (case sr0 of
        Some s \<Rightarrow> finish_init s []
      | None \<Rightarrow>
          (case (case port of None \<Rightarrow> None | Some [] \<Rightarrow> None | Some (c # p) \<Rightarrow> Some (c # p)) of
             None \<Rightarrow>
               (case find_port opn candidates of
                  (Inl e, out) \<Rightarrow> (Inl e, out)
                | (Inr None, out) \<Rightarrow> (Inl (ValueError ''Could not find port.''), out)
                | (Inr (Some s), out) \<Rightarrow> finish_init s out)
           | Some name \<Rightarrow>
               (case opn name of
                  None \<Rightarrow> (Inl SerialError, [])
                | Some s0 \<Rightarrow>
                    (case readline s0 of (_, s1) \<Rightarrow>
                     case get_version s1 of
                       (Inl e, s2) \<Rightarrow> (Inl e, [])
                     | (Inr version, s2) \<Rightarrow>
                         finish_init s2
                           (if version \<noteq> Some libraryVersion
                            then (if looks_like_version version then version_warning version
                                  else [])
                            else [])))))"

text \<open>Sending a frame and reading a reply through the object's stream.\<close>

definition send :: "board \<Rightarrow> string \<Rightarrow> (string \<times> bool) list \<Rightarrow> (py_error + unit) \<times> board" where
  "send b cmd_str kwargs =
     (case call_write_and_flush (sr b) cmd_str kwargs of (r, s') \<Rightarrow> (r, b\<lparr>sr := s'\<rparr>))"

definition recv :: "board \<Rightarrow> (py_error + string) \<times> board" where
  "recv b = (case rd (sr b) of (t, s') \<Rightarrow> (t, b\<lparr>sr := s'\<rparr>))"

text \<open>The text Python prints for a tuple of two or more strings, used in messages.\<close>

definition tuple_repr :: "string list \<Rightarrow> string" where
  "tuple_repr xs = ''('' @ join '', '' (map (\<lambda>x. sq @ x @ sq) xs) @ '')''"

section \<open>Pin operations\<close>

text \<open>
  Pin numbers are integers, so \<^verbatim>\<open>int(pin)\<close> is the identity; \<^verbatim>\<open>self.pinModeDic[pin]\<close>
  raises \<^verbatim>\<open>KeyError\<close> for a pin that is not a key. Each method returns what the Python
  method returns or raises, with the object as the call left it. The local \<^verbatim>\<open>pin_\<close> is
  written \<open>pin'\<close>.

  \<^verbatim>\<open>
  def pinMode(self, pin, val):
      pin = int(pin)
      val = str(val).upper()
      valid= ('INPUT', 'OUTPUT', 'INPUT_PULLUP')
      if val in valid:
          if val == "INPUT":
              pin_ = -pin
          elif val == "INPUT_PULLUP":
              pin_ = -16384-pin
          else:
              pin_ = pin
          self.pinModeDic[pin] = val
          cmd_str = build_cmd_str("pm", (pin_,))
          write_and_flush(self.sr,cmd_str)
      else:
          raise ValueError(f'val: {str(val).upper()} not in {valid}')
  \<close>
\<close>

definition pinMode :: "board \<Rightarrow> int \<Rightarrow> string \<Rightarrow> (py_error + pyval) \<times> board" where
  "pinMode b pin val0 =
     (let val = upper val0;
          valid = [''INPUT'', ''OUTPUT'', ''INPUT_PULLUP'']
      in if val \<in> set valid then
           (let pin' = (if val = ''INPUT'' then - pin
                        else if val = ''INPUT_PULLUP'' then - 16384 - pin
                        else pin);
                b1 = b\<lparr>pinModeDic := (pinModeDic b)(pin \<mapsto> val)\<rparr>;
                cmd_str = build_cmd_str ''pm'' (Some [AInt pin'])
            in case send b1 cmd_str [] of
                 (Inl e, b2) \<Rightarrow> (Inl e, b2)
               | (Inr _, b2) \<Rightarrow> (Inr PNone, b2))
         else (Inl (ValueError (''val: '' @ upper val @ '' not in '' @ tuple_repr valid)), b))"

text \<open>
  \<^verbatim>\<open>
  def digitalWrite(self, pin, val):
      pin = int(pin)
      val = str(val).upper()
      valid = ('HIGH','LOW')
      if not self.pinModeDic[pin] == 'OUTPUT':
          raise ValueError('pin: {} not set to OUTPUT'.format(pin))
      if val in valid:
          if val == "LOW":
              pin_ = -pin
          else:
              pin_ = pin
          cmd_str = build_cmd_str("dw", (pin_,))
          write_and_flush(self.sr,cmd_str)
      else:
          raise ValueError('val: {} not in {}'.format(str(val).upper(), str(valid)))
  \<close>
\<close>

definition digitalWrite :: "board \<Rightarrow> int \<Rightarrow> string \<Rightarrow> (py_error + pyval) \<times> board" where
  "digitalWrite b pin val0 =
     (let val = upper val0;
          valid = [''HIGH'', ''LOW'']
      in case pinModeDic b pin of
           None \<Rightarrow> (Inl (KeyError pin), b)
         | Some mode \<Rightarrow>
             if mode \<noteq> ''OUTPUT''
             then (Inl (ValueError (''pin: '' @ str_int pin @ '' not set to OUTPUT'')), b)
             else if val \<in> set valid then
               (let pin' = (if val = ''LOW'' then - pin else pin);
                    cmd_str = build_cmd_str ''dw'' (Some [AInt pin'])
                in case send b cmd_str [] of
                     (Inl e, b1) \<Rightarrow> (Inl e, b1)
                   | (Inr _, b1) \<Rightarrow> (Inr PNone, b1))
             else (Inl (ValueError (''val: '' @ upper val @ '' not in '' @ tuple_repr valid)), b))"

text \<open>
  \<^verbatim>\<open>
  def analogWrite(self, pin, val):
      pin = int(pin)
      val = int(val)
      if not self.pinModeDic[pin] == 'OUTPUT':
          raise ValueError(f'pin: {pin} not set to OUTPUT')
      else:
          if val > 255:
              val = 255
          elif val < 0:
              val = 0
      cmd_str = build_cmd_str("aw", (pin, val))
      write_and_flush(self.sr,cmd_str)
  \<close>
\<close>

definition analogWrite :: "board \<Rightarrow> int \<Rightarrow> int \<Rightarrow> (py_error + pyval) \<times> board" where
  "analogWrite b pin val0 =
     (case pinModeDic b pin of
        None \<Rightarrow> (Inl (KeyError pin), b)
      | Some mode \<Rightarrow>
          if mode \<noteq> ''OUTPUT''
          then (Inl (ValueError (''pin: '' @ str_int pin @ '' not set to OUTPUT'')), b)
          else
            (let val = (if val0 > 255 then 255 else if val0 < 0 then 0 else val0);
                 cmd_str = build_cmd_str ''aw'' (Some [AInt pin, AInt val])
             in case send b cmd_str [] of
                  (Inl e, b1) \<Rightarrow> (Inl e, b1)
                | (Inr _, b1) \<Rightarrow> (Inr PNone, b1)))"

text \<open>
  \<^verbatim>\<open>
  def analogRead(self, pin):
      pin = int(pin)
      cmd_str = build_cmd_str("ar", (pin,))
      write_and_flush(self.sr,cmd_str)
      try:
          return int(rd(self.sr))
      except:
          return 0
  \<close>
\<close>

definition analogRead :: "interp \<Rightarrow> board \<Rightarrow> int \<Rightarrow> (py_error + pyval) \<times> board" where
  "analogRead I b pin =
     (let cmd_str = build_cmd_str ''ar'' (Some [AInt pin])
      in case send b cmd_str [] of
           (Inl e, b1) \<Rightarrow> (Inl e, b1)
         | (Inr _, b1) \<Rightarrow>
             (case recv b1 of
                (Inl e, b2) \<Rightarrow> (Inr (PInt 0), b2)
              | (Inr response, b2) \<Rightarrow>
                  (case py_int I response of
                     Some n \<Rightarrow> (Inr (PInt n), b2)
                   | None \<Rightarrow> (Inr (PInt 0), b2))))"

text \<open>
  \<^verbatim>\<open>
  def pulseIn(self, pin, val):
      pin = int(pin)
      val = str(val).upper()
      valid = ('LOW', 'HIGH')
      if not self.pinModeDic[pin] == 'INPUT':
          raise ValueError(f'pin: {pin} not set to INPUT')
      if not val in valid:
          raise ValueError(f'val: {str(val).upper()} not in {valid}')
      else:
          if val == "LOW":
              pin_ = -pin
          else:
              pin_ = pin
          cmd_str = build_cmd_str("pi", (pin_,))
          write_and_flush(self.sr,cmd_str)
      try:
          return float(rd(self.sr))
      except:
          return -1
  \<close>
\<close>

definition pulseIn :: "interp \<Rightarrow> board \<Rightarrow> int \<Rightarrow> string \<Rightarrow> (py_error + pyval) \<times> board" where
  "pulseIn I b pin val0 =
     (let val = upper val0;
          valid = [''LOW'', ''HIGH'']
      in case pinModeDic b pin of
           None \<Rightarrow> (Inl (KeyError pin), b)
         | Some mode \<Rightarrow>
             if mode \<noteq> ''INPUT''
             then (Inl (ValueError (''pin: '' @ str_int pin @ '' not set to INPUT'')), b)
             else if val \<notin> set valid
             then (Inl (ValueError (''val: '' @ upper val @ '' not in '' @ tuple_repr valid)), b)
             else
               (let pin' = (if val = ''LOW'' then - pin else pin);
                    cmd_str = build_cmd_str ''pi'' (Some [AInt pin'])
                in case send b cmd_str [] of
                     (Inl e, b1) \<Rightarrow> (Inl e, b1)
                   | (Inr _, b1) \<Rightarrow>
                       (case recv b1 of
                          (Inl e, b2) \<Rightarrow> (Inr (PInt (- 1)), b2)
                        | (Inr response, b2) \<Rightarrow>
                            (case py_float I response of
                               Some x \<Rightarrow> (Inr x, b2)
                             | None \<Rightarrow> (Inr (PInt (- 1)), b2)))))"

text \<open>
  \<^verbatim>\<open>
  def pulseIn_set(self, pin, val, numTrials=5):
      pin = int(pin)
      val = str(val).upper()
      numtrials = int(numtrials)
      if not self.pinModeDic[pin] == 'OUTPUT':
          if val == "LOW":
              pin_ = -pin
          else:
              pin_ = pin
          cmd_str = build_cmd_str("ps", (pin_,))
          durations = []
          for s in range(numTrials):
              write_and_flush(self.sr,cmd_str)
              response=rd(self.sr)
              if response.isdigit():
                  if (int(response) > 1):
                      durations.append(int(response))
      if len(durations) > 0:
          duration = int(sum(durations)) / int(len(durations))
      else:
          duration = None
      try:
          return float(duration)
      except:
          return -1
  \<close>
  The names assigned in the body are local to the call. On entry only the parameters
  are bound; reading a local name that has no value yet raises \<^verbatim>\<open>UnboundLocalError\<close>.
  The entry frame is written out, and the two reads of a name that may be unbound
  (\<^verbatim>\<open>numtrials\<close> and \<^verbatim>\<open>durations\<close>) are looked up in it.
\<close>

fun ps_trials ::
  "interp \<Rightarrow> nat \<Rightarrow> string \<Rightarrow> board \<Rightarrow> int list \<Rightarrow> (py_error + int list) \<times> board" where
  "ps_trials I 0 cmd_str b durations = (Inr durations, b)"
| "ps_trials I (Suc n) cmd_str b durations =
     (case send b cmd_str [] of (_, b1) \<Rightarrow>
      case recv b1 of
        (Inl e, b2) \<Rightarrow> (Inl e, b2)
      | (Inr response, b2) \<Rightarrow>
          if isdigit I response then
            (case py_int I response of
               None \<Rightarrow> (Inl (ValueError (''invalid literal for int() with base 10: ''
                                         @ sq @ response @ sq)), b2)
             | Some v \<Rightarrow> ps_trials I n cmd_str b2 (if v > 1 then durations @ [v] else durations))
          else ps_trials I n cmd_str b2 durations)"

definition pulseIn_set_frame :: "int \<Rightarrow> string \<Rightarrow> int \<Rightarrow> (string \<rightharpoonup> arg)" where
  "pulseIn_set_frame pin val numTrials =
     [''pin'' \<mapsto> AInt pin, ''val'' \<mapsto> AStr val, ''numTrials'' \<mapsto> AInt numTrials]"

definition pulseIn_set ::
  "interp \<Rightarrow> board \<Rightarrow> int \<Rightarrow> string \<Rightarrow> int \<Rightarrow> (py_error + pyval) \<times> board" where
  "pulseIn_set I b pin val0 numTrials =
     (let val = upper val0;
          frame = pulseIn_set_frame pin val numTrials
      in case frame ''numtrials'' of
           None \<Rightarrow> (Inl (UnboundLocalError ''numtrials''), b)
         | Some _ \<Rightarrow>
             (case pinModeDic b pin of
                None \<Rightarrow> (Inl (KeyError pin), b)
              | Some mode \<Rightarrow>
                  if mode \<noteq> ''OUTPUT'' then
                    (let pin' = (if val = ''LOW'' then - pin else pin);
                         cmd_str = build_cmd_str ''ps'' (Some [AInt pin'])
                     in case ps_trials I (nat numTrials) cmd_str b [] of
                          (Inl e, b1) \<Rightarrow> (Inl e, b1)
                        | (Inr durations, b1) \<Rightarrow>
                            if length durations > 0
                            then (Inr (PFloatDiv (sum_list durations) (int (length durations))), b1)
                            else (Inr (PInt (- 1)), b1))
                  else
                    (case frame ''durations'' of
                       None \<Rightarrow> (Inl (UnboundLocalError ''durations''), b)
                     | Some _ \<Rightarrow> (Inr (PInt (- 1)), b))))"

text \<open>
  \<^verbatim>\<open>
  def shiftOut(self, dataPin, clockPin, pinOrder, value):
      dataPin = int(dataPin)
      clockPin = int(clockPin)
      pinOrder = str(pinOrder).upper()
      value = int(value)
      valid = ('MSBFIRST', 'LSBFIRST')
      if self.pinModeDic[dataPin] == 'OUTPUT' and self.pinModeDic[clockPin] == 'OUTPUT'
              and pinOrder.upper() in valid:
          if value < 0:
              value = 0
          elif value > 255:
              value = 255
          cmd_str = build_cmd_str("so", (dataPin, clockPin, pinOrder, value))
          write_and_flush(self.sr, cmd_str, raise_error=True)
      else:
          if not self.pinModeDic[dataPin] == 'OUTPUT':
              raise ValueError('pin: {} not initialised to OUTPUT'.format(dataPin))
          if not self.pinModeDic[clockPin] == 'OUTPUT':
              raise ValueError('pin: {} not initialised to OUTPUT'.format(clockPin))
          if not pinOrder.upper() in valid:
              raise ValueError('pinOrder: {} not in {}'.format(str(pinOrder).upper(), valid))
  \<close>
  \<^verbatim>\<open>and\<close> evaluates from the left and stops at the first false operand, so the clock
  pin is looked up only when the data pin is an output. When the test fails, the
  \<^verbatim>\<open>else\<close> branch raises for the first operand that was false.
\<close>

definition shiftOut :: "board \<Rightarrow> int \<Rightarrow> int \<Rightarrow> string \<Rightarrow> int \<Rightarrow> (py_error + pyval) \<times> board" where
  "shiftOut b dataPin clockPin pinOrder0 value0 =
     (let pinOrder = upper pinOrder0;
          valid = [''MSBFIRST'', ''LSBFIRST'']
      in case pinModeDic b dataPin of
           None \<Rightarrow> (Inl (KeyError dataPin), b)
         | Some dmode \<Rightarrow>
             if dmode \<noteq> ''OUTPUT''
             then (Inl (ValueError (''pin: '' @ str_int dataPin @ '' not initialised to OUTPUT'')), b)
             else
               (case pinModeDic b clockPin of
                  None \<Rightarrow> (Inl (KeyError clockPin), b)
                | Some cmode \<Rightarrow>
                    if cmode \<noteq> ''OUTPUT''
                    then (Inl (ValueError (''pin: '' @ str_int clockPin
                                           @ '' not initialised to OUTPUT'')), b)
                    else if upper pinOrder \<in> set valid then
                      (let val = (if value0 < 0 then 0 else if value0 > 255 then 255 else value0);
                           cmd_str = build_cmd_str ''so''
                                       (Some [AInt dataPin, AInt clockPin, AStr pinOrder, AInt val])
                       in case send b cmd_str [(''raise_error'', True)] of
                            (Inl e, b1) \<Rightarrow> (Inl e, b1)
                          | (Inr _, b1) \<Rightarrow> (Inr PNone, b1))
                    else (Inl (ValueError (''pinOrder: '' @ upper pinOrder @ '' not in ''
                                           @ tuple_repr valid)), b)))"

section \<open>Servos\<close>

text \<open>
  \<^verbatim>\<open>
  def attach(self, pin, min=544, max=2400):
      cmd_str = build_cmd_str("sva", (pin, min, max))
      while True:
          write_and_flush(self.sr,cmd_str, raise_error=True)
          response = rd(self.sr)
          if response:
              break
          else:
              log.debug(f"trying to attach servo to pin {pin}")
      position = int(response)
      self.servo_pos[pin] = position
      return 1
  \<close>
  The loop repeats the command until the device answers with a non-empty line, so it
  runs forever on a silent device: the loop is a partial function, \<open>None\<close> when it
  does not end. It ends with the answer read or with the exception a strict write raised.
\<close>

partial_function (option) attach_loop :: "board \<Rightarrow> string \<Rightarrow> ((py_error + string) \<times> board) option" where
  "attach_loop b cmd_str =
     (case send b cmd_str [(''raise_error'', True)] of
        (Inl e, b1) \<Rightarrow> Some (Inl e, b1)
      | (Inr u, b1) \<Rightarrow>
          (case recv b1 of
             (Inl e, b2) \<Rightarrow> Some (Inl e, b2)
           | (Inr response, b2) \<Rightarrow>
               if response \<noteq> [] then Some (Inr response, b2)
               else attach_loop b2 cmd_str))"








section \<open>Software serial\<close>

text \<open>
  \<^verbatim>\<open>
  def begin(self, p1, p2, baud):
      cmd_str = build_cmd_str("ss", (p1, p2, baud))
      write_and_flush(self.sr,cmd_str)
      response = rd(self.sr)
      if response == "ss OK":
          self.connected = True
          return True
      else:
          self.connected = False
          return False

  def write(self, data):
      if self.connected:
          cmd_str = build_cmd_str("sw", (data,))
          write_and_flush(self.sr,cmd_str)
          response = rd(self.sr)
          if response == "ss OK":
              return True
      else:
          return False

  def read(self):
      if self.connected:
          cmd_str = build_cmd_str("sr")
          write_and_flush(self.sr,cmd_str, raise_error=True)
          response = rd(self.sr)
          if response:
              return response
      else:
          return False
  \<close>
  A method that reaches the end of its body returns \<^verbatim>\<open>None\<close>.
\<close>

definition begin_ss :: "board \<Rightarrow> arg \<Rightarrow> arg \<Rightarrow> arg \<Rightarrow> (py_error + pyval) \<times> board" where
  "begin_ss b p1 p2 baud =
     (let cmd_str = build_cmd_str ''ss'' (Some [p1, p2, baud])
      in case send b cmd_str [] of
           (Inl e, b1) \<Rightarrow> (Inl e, b1)
         | (Inr _, b1) \<Rightarrow>
             (case recv b1 of
                (Inl e, b2) \<Rightarrow> (Inl e, b2)
              | (Inr response, b2) \<Rightarrow>
                  if response = ''ss OK''
                  then (Inr (PBool True), b2\<lparr>connected := True\<rparr>)
                  else (Inr (PBool False), b2\<lparr>connected := False\<rparr>)))"

definition SoftwareSerial_write :: "board \<Rightarrow> arg \<Rightarrow> (py_error + pyval) \<times> board" where
  "SoftwareSerial_write b data =
     (if connected b then
        (let cmd_str = build_cmd_str ''sw'' (Some [data])
         in case send b cmd_str [] of
              (Inl e, b1) \<Rightarrow> (Inl e, b1)
            | (Inr _, b1) \<Rightarrow>
                (case recv b1 of
                   (Inl e, b2) \<Rightarrow> (Inl e, b2)
                 | (Inr response, b2) \<Rightarrow>
                     if response = ''ss OK'' then (Inr (PBool True), b2) else (Inr PNone, b2)))
      else (Inr (PBool False), b))"

definition SoftwareSerial_read :: "board \<Rightarrow> (py_error + pyval) \<times> board" where
  "SoftwareSerial_read b =
     (if connected b then
        (let cmd_str = build_cmd_str ''sr'' None
         in case send b cmd_str [(''raise_error'', True)] of
              (Inl e, b1) \<Rightarrow> (Inl e, b1)
            | (Inr _, b1) \<Rightarrow>
                (case recv b1 of
                   (Inl e, b2) \<Rightarrow> (Inl e, b2)
                 | (Inr response, b2) \<Rightarrow>
                     if response \<noteq> [] then (Inr (PStr response), b2) else (Inr PNone, b2)))
      else (Inr (PBool False), b))"

section \<open>EEPROM\<close>

text \<open>
  \<^verbatim>\<open>
  def size(self):
      cmd_str = build_cmd_str("sz")
      try:
          write_and_flush(self.sr,cmd_str, raise_error=True)
          response = rd(self.sr)
          return int(response)
      except:
          return 0

  def read(self, address):
      address = int(address)
      cmd_str = build_cmd_str("eer", (address,))
      try:
          write_and_flush(self.sr,cmd_str)
          response = rd(self.sr)
          if response:
              return int(response)
      except:
          return 0
  \<close>
  The bare \<^verbatim>\<open>except\<close> turns every exception raised inside the \<^verbatim>\<open>try\<close> into the
  value 0. In \<^verbatim>\<open>read\<close> an empty reply skips the \<^verbatim>\<open>return\<close> inside the \<^verbatim>\<open>try\<close>
  without raising, and the method ends without a \<^verbatim>\<open>return\<close>.
\<close>

definition EEPROM_size :: "interp \<Rightarrow> board \<Rightarrow> (py_error + pyval) \<times> board" where
  "EEPROM_size I b =
     (let cmd_str = build_cmd_str ''sz'' None
      in case send b cmd_str [(''raise_error'', True)] of
           (Inl e, b1) \<Rightarrow> (Inr (PInt 0), b1)
         | (Inr _, b1) \<Rightarrow>
             (case recv b1 of
                (Inl e, b2) \<Rightarrow> (Inr (PInt 0), b2)
              | (Inr response, b2) \<Rightarrow>
                  (case py_int I response of
                     Some n \<Rightarrow> (Inr (PInt n), b2)
                   | None \<Rightarrow> (Inr (PInt 0), b2))))"

definition EEPROM_read :: "interp \<Rightarrow> board \<Rightarrow> int \<Rightarrow> (py_error + pyval) \<times> board" where
  "EEPROM_read I b address =
     (let cmd_str = build_cmd_str ''eer'' (Some [AInt address])
      in case send b cmd_str [] of
           (Inl e, b1) \<Rightarrow> (Inr (PInt 0), b1)
         | (Inr _, b1) \<Rightarrow>
             (case recv b1 of
                (Inl e, b2) \<Rightarrow> (Inr (PInt 0), b2)
              | (Inr response, b2) \<Rightarrow>
                  if response \<noteq> []
                  then (case py_int I response of
                          Some n \<Rightarrow> (Inr (PInt n), b2)
                        | None \<Rightarrow> (Inr (PInt 0), b2))
                  else (Inr PNone, b2)))"

section \<open>Sessions used as examples\<close>

text \<open>A stream on which writes and flushes succeed and whose device will send the given
  raw lines, and the board object created on it.\<close>

definition stream_of :: "string list \<Rightarrow> serial" where
  "stream_of ls = \<lparr>incoming = ls, written = [], write_err = False, flush_err = False\<rparr>"

definition board_of :: "string list \<Rightarrow> board" where
  "board_of ls = new_board (stream_of ls)"

text \<open>An interpreter with the usual digit limit. The examples exchange ASCII text only, on
  which its other three fields are never consulted.\<close>

definition cpython :: interp where
  "cpython = \<lparr>int_max_str_digits = 4300, int_unicode = (\<lambda>_. None),
               float_unicode = (\<lambda>_. False), isdigit_unicode = (\<lambda>_. False)\<rparr>"

section \<open>Properties\<close>

subsection \<open>Helper facts\<close>

lemma join_concat: "join sep (x # xs) = x @ concat (map (\<lambda>y. sep @ y) xs)"
  by (induction xs arbitrary: x) simp_all

lemma send_plain:
  "send b cmd_str [] =
     (Inr (), b\<lparr>sr := (if write_err (sr b) then sr b
                          else (sr b)\<lparr>written := written (sr b) @ [cmd_str]\<rparr>)\<rparr>)"
  by (simp add: send_def call_write_and_flush_def write_and_flush_def sr_write_def sr_flush_def
      write_and_flush_params_def)

lemma send_strict:
  "send b cmd_str [(''raise_error'', True)] =
     (if write_err (sr b) then (Inl SerialError, b)
      else if flush_err (sr b)
        then (Inl SerialError, b\<lparr>sr := (sr b)\<lparr>written := written (sr b) @ [cmd_str]\<rparr>\<rparr>)
        else (Inr (), b\<lparr>sr := (sr b)\<lparr>written := written (sr b) @ [cmd_str]\<rparr>\<rparr>))"
  by (simp add: send_def call_write_and_flush_def write_and_flush_def sr_write_def sr_flush_def
      write_and_flush_params_def)


subsection \<open>The frame format\<close>

text \<open>
  C1. For every command name and argument list, \<open>build_cmd_str\<close> gives the frame
  \<^verbatim>\<open>@<name>%<arg1>%<arg2>...$!\<close>: the arguments are converted with \<^verbatim>\<open>str\<close> and joined
  by \<^verbatim>\<open>%\<close>, so that every argument of a non-empty list is preceded by one \<^verbatim>\<open>%\<close>, and
  the argument segment is empty when there is no argument. In particular
  \<^verbatim>\<open>build_cmd_str("dw", [13])\<close> is \<^verbatim>\<open>@dw%13$!\<close> and \<^verbatim>\<open>build_cmd_str("version")\<close> is
  \<^verbatim>\<open>@version%$!\<close>.
\<close>

theorem build_cmd_str_frame:
  "build_cmd_str cmd (Some args) = ''@'' @ cmd @ ''%'' @ join ''%'' (map py_str args) @ ''$!''
   \<and> build_cmd_str cmd (Some (a # as)) =
         ''@'' @ cmd @ concat (map (\<lambda>x. ''%'' @ py_str x) (a # as)) @ ''$!''
   \<and> build_cmd_str cmd (Some []) = ''@'' @ cmd @ ''%$!''
   \<and> build_cmd_str cmd None = ''@'' @ cmd @ ''%$!''
   \<and> build_cmd_str ''dw'' (Some [AInt 13]) = ''@dw%13$!''
   \<and> build_cmd_str ''version'' None = ''@version%$!''"
proof -
  have general: "build_cmd_str cmd (Some args) = ''@'' @ cmd @ ''%'' @ join ''%'' (map py_str args) @ ''$!''"
    by (cases args) (simp_all add: build_cmd_str_def)
  have segments: "build_cmd_str cmd (Some (a # as)) =
         ''@'' @ cmd @ concat (map (\<lambda>x. ''%'' @ py_str x) (a # as)) @ ''$!''"
    by (simp add: build_cmd_str_def join_concat comp_def)
  have no_args: "build_cmd_str cmd (Some []) = ''@'' @ cmd @ ''%$!''"
    "build_cmd_str cmd None = ''@'' @ cmd @ ''%$!''"
    by (simp_all add: build_cmd_str_def)
  have dw: "build_cmd_str ''dw'' (Some [AInt 13]) = ''@dw%13$!''"
    by (simp add: build_cmd_str_def str_int_def str_nat.simps digit_char_def)
  have version: "build_cmd_str ''version'' None = ''@version%$!''"
    by (simp add: build_cmd_str_def)
  from general segments no_args dw version show ?thesis by blast
qed

lemma upper_literals:
  "upper ''INPUT'' = ''INPUT''" "upper ''OUTPUT'' = ''OUTPUT''"
  "upper ''INPUT_PULLUP'' = ''INPUT_PULLUP''" "upper ''HIGH'' = ''HIGH''" "upper ''LOW'' = ''LOW''"
  "upper ''MSBFIRST'' = ''MSBFIRST''" "upper ''LSBFIRST'' = ''LSBFIRST''"
  by (simp_all add: upper_def upper_char_def)

subsection \<open>Sign encoding of pin commands\<close>

text \<open>
  C2. For every pin \<open>p\<close>, on a stream that accepts the write: \<^verbatim>\<open>pinMode(p, "INPUT")\<close>
  sends the frame whose argument is \<open>-p\<close>, \<^verbatim>\<open>pinMode(p, "INPUT_PULLUP")\<close> sends
  \<open>-16384 - p\<close> and \<^verbatim>\<open>pinMode(p, "OUTPUT")\<close> sends \<open>p\<close>, each recording the mode of
  the pin; and when \<open>p\<close> is configured as \<^verbatim>\<open>OUTPUT\<close>, \<^verbatim>\<open>digitalWrite(p, "LOW")\<close> sends
  \<open>-p\<close> while \<^verbatim>\<open>digitalWrite(p, "HIGH")\<close> sends \<open>p\<close>.
\<close>

theorem sign_encoding:
  "\<not> write_err (sr b) \<Longrightarrow>
     pinMode b p ''INPUT'' =
       (Inr PNone, b\<lparr>pinModeDic := (pinModeDic b)(p \<mapsto> ''INPUT''),
                      sr := (sr b)\<lparr>written := written (sr b) @ [''@pm%'' @ str_int (- p) @ ''$!'']\<rparr>\<rparr>)
   \<and> pinMode b p ''INPUT_PULLUP'' =
       (Inr PNone, b\<lparr>pinModeDic := (pinModeDic b)(p \<mapsto> ''INPUT_PULLUP''),
                      sr := (sr b)\<lparr>written := written (sr b) @ [''@pm%'' @ str_int (- 16384 - p) @ ''$!'']\<rparr>\<rparr>)
   \<and> pinMode b p ''OUTPUT'' =
       (Inr PNone, b\<lparr>pinModeDic := (pinModeDic b)(p \<mapsto> ''OUTPUT''),
                      sr := (sr b)\<lparr>written := written (sr b) @ [''@pm%'' @ str_int p @ ''$!'']\<rparr>\<rparr>)
   \<and> (pinModeDic b p = Some ''OUTPUT'' \<longrightarrow>
        digitalWrite b p ''LOW'' =
          (Inr PNone, b\<lparr>sr := (sr b)\<lparr>written := written (sr b) @ [''@dw%'' @ str_int (- p) @ ''$!'']\<rparr>\<rparr>)
      \<and> digitalWrite b p ''HIGH'' =
          (Inr PNone, b\<lparr>sr := (sr b)\<lparr>written := written (sr b) @ [''@dw%'' @ str_int p @ ''$!'']\<rparr>\<rparr>))"
  by (simp add: pinMode_def digitalWrite_def upper_literals send_plain build_cmd_str_def Let_def)

text \<open>Pin 13 on a fresh board: the three modes, then both levels once the pin is an
  output.\<close>

theorem sign_encoding_witness:
  "written (sr (snd (pinMode (board_of []) 13 ''INPUT''))) = [''@pm%-13$!'']
   \<and> written (sr (snd (pinMode (board_of []) 13 ''INPUT_PULLUP''))) = [''@pm%-16397$!'']
   \<and> written (sr (snd (pinMode (board_of []) 13 ''OUTPUT''))) = [''@pm%13$!'']
   \<and> written (sr (snd (digitalWrite (snd (pinMode (board_of []) 13 ''OUTPUT'')) 13 ''LOW'')))
       = [''@pm%13$!'', ''@dw%-13$!'']
   \<and> written (sr (snd (digitalWrite (snd (pinMode (board_of []) 13 ''OUTPUT'')) 13 ''HIGH'')))
       = [''@pm%13$!'', ''@dw%13$!'']"
  using sign_encoding [of "board_of []" 13]
    sign_encoding [of "snd (pinMode (board_of []) 13 ''OUTPUT'')" 13]
  by (simp add: board_of_def new_board_def stream_of_def str_int_def str_nat.simps digit_char_def)

subsection \<open>Replies and sends\<close>

lemma incoming_send: "incoming (sr (snd (send b cmd_str kw))) = incoming (sr b)"
  by (simp add: send_def call_write_and_flush_def write_and_flush_def sr_write_def sr_flush_def
      split: list.splits sum.splits prod.splits)

lemma fields_send:
  "pinModeDic (snd (send b cmd_str kw)) = pinModeDic b"
  "servo_pos (snd (send b cmd_str kw)) = servo_pos b"
  "connected (snd (send b cmd_str kw)) = connected b"
  by (simp_all add: send_def split: prod.splits)

lemma readline_after_send: "fst (readline (sr (snd (send b cmd_str kw)))) = fst (readline (sr b))"
  by (simp add: readline_def incoming_send split: list.splits)

lemma fst_rd:
  "fst (rd s) = (if utf8_ok (fst (readline s)) then Inr (replace_crlf (fst (readline s)))
                 else Inl UnicodeDecodeError)"
  by (simp add: rd_def decode_def split: prod.splits)

lemma recv_eq: "recv b = (fst (rd (sr b)), b\<lparr>sr := snd (rd (sr b))\<rparr>)"
  by (simp add: recv_def split: prod.splits)

lemma fields_recv:
  "pinModeDic (snd (recv b)) = pinModeDic b"
  "servo_pos (snd (recv b)) = servo_pos b"
  "connected (snd (recv b)) = connected b"
  by (simp_all add: recv_eq)

lemma reply_after_send:
  "fst (recv (snd (send b cmd_str kw))) =
     (if utf8_ok (fst (readline (sr b))) then Inr (replace_crlf (fst (readline (sr b))))
      else Inl UnicodeDecodeError)"
  by (simp add: recv_eq fst_rd readline_after_send)

lemma fst_send_plain: "fst (send b cmd_str []) = Inr ()"
  by (simp add: send_plain)


lemma py_int_empty: "py_int I [] = None"
  by (simp add: py_int_def strip_def is_ascii_def)

lemma py_float_empty: "py_float I [] = None"
  by (simp add: py_float_def strip_def is_ascii_def)

lemma only_line_ends_utf8: "replace_crlf raw = [] \<Longrightarrow> utf8_ok raw"
  by (induction raw rule: replace_crlf.induct) (auto simp: utf8_ok_def split: if_splits)

subsection \<open>Writing to a pin that was never configured\<close>

text \<open>
  C3. \<^verbatim>\<open>digitalWrite\<close> looks the pin up with \<^verbatim>\<open>self.pinModeDic[pin]\<close> before it compares
  the mode. For a pin \<open>p\<close> that was never passed to \<^verbatim>\<open>pinMode\<close> the lookup itself
  raises \<^verbatim>\<open>KeyError(p)\<close>: the call fails before any frame is sent and leaves the object
  as it was, but the exception is not the \<^verbatim>\<open>ValueError\<close> "pin: p not set to OUTPUT" that
  the next line would raise, and it does not name the required mode.
\<close>

theorem digitalWrite_unconfigured:
  "pinModeDic b p = None \<Longrightarrow> digitalWrite b p val = (Inl (KeyError p), b)"
  by (simp add: digitalWrite_def Let_def)

text \<open>Pin 13 on a fresh board, and the same call once the pin has been made an output.\<close>

theorem digitalWrite_unconfigured_witness:
  "digitalWrite (board_of []) 13 ''HIGH'' = (Inl (KeyError 13), board_of [])
   \<and> digitalWrite (snd (pinMode (board_of []) 13 ''OUTPUT'')) 13 ''HIGH'' =
       (Inr PNone,
        (board_of [])\<lparr>sr := (stream_of [])\<lparr>written := [''@pm%13$!'', ''@dw%13$!'']\<rparr>,
                       pinModeDic := [13 \<mapsto> ''OUTPUT'']\<rparr>)"
proof -
  have fresh: "pinModeDic (board_of []) 13 = None"
    by (simp add: board_of_def new_board_def)
  have "digitalWrite (snd (pinMode (board_of []) 13 ''OUTPUT'')) 13 ''HIGH'' =
       (Inr PNone,
        (board_of [])\<lparr>sr := (stream_of [])\<lparr>written := [''@pm%13$!'', ''@dw%13$!'']\<rparr>,
                       pinModeDic := [13 \<mapsto> ''OUTPUT'']\<rparr>)"
    by (simp add: pinMode_def digitalWrite_def upper_literals send_plain build_cmd_str_def Let_def
        board_of_def new_board_def stream_of_def str_int_def str_nat.simps digit_char_def)
  with digitalWrite_unconfigured [OF fresh, of "''HIGH''"] show ?thesis by simp
qed

subsection \<open>Clamping\<close>

text \<open>
  C8. For every pin \<open>p\<close> configured as \<^verbatim>\<open>OUTPUT\<close>, \<^verbatim>\<open>analogWrite(p, v)\<close> sends the value
  clamped to the range from 0 to 255 (255 for \<open>v > 255\<close>, 0 for \<open>v < 0\<close>), and
  \<^verbatim>\<open>shiftOut\<close>, called with two output pins and a valid bit order, clamps its value
  in the same way before it encodes the frame.
\<close>

theorem clamping:
  "(pinModeDic b p = Some ''OUTPUT'' \<and> \<not> write_err (sr b) \<longrightarrow>
      analogWrite b p v =
        (Inr PNone,
         b\<lparr>sr := (sr b)\<lparr>written := written (sr b)
                    @ [''@aw%'' @ str_int p @ ''%'' @ str_int (max 0 (min 255 v)) @ ''$!'']\<rparr>\<rparr>))
   \<and> (pinModeDic b d = Some ''OUTPUT'' \<and> pinModeDic b c = Some ''OUTPUT''
        \<and> upper order \<in> {''MSBFIRST'', ''LSBFIRST''}
        \<and> \<not> write_err (sr b) \<and> \<not> flush_err (sr b) \<longrightarrow>
      shiftOut b d c order v =
        (Inr PNone,
         b\<lparr>sr := (sr b)\<lparr>written := written (sr b)
                    @ [''@so%'' @ str_int d @ ''%'' @ str_int c @ ''%'' @ upper order @ ''%''
                       @ str_int (max 0 (min 255 v)) @ ''$!'']\<rparr>\<rparr>))
   \<and> 0 \<le> max 0 (min 255 v) \<and> max 0 (min 255 v) \<le> 255
   \<and> (v > 255 \<longrightarrow> max 0 (min 255 v) = 255) \<and> (v < 0 \<longrightarrow> max 0 (min 255 v) = 0)"
proof -
  have cl1: "(if v > 255 then 255 else if v < 0 then 0 else v) = max 0 (min 255 v)" by auto
  have cl2: "(if v < 0 then 0 else if v > 255 then 255 else v) = max 0 (min 255 v)" by auto
  have aw: "pinModeDic b p = Some ''OUTPUT'' \<and> \<not> write_err (sr b) \<longrightarrow>
      analogWrite b p v =
        (Inr PNone,
         b\<lparr>sr := (sr b)\<lparr>written := written (sr b)
                    @ [''@aw%'' @ str_int p @ ''%'' @ str_int (max 0 (min 255 v)) @ ''$!'']\<rparr>\<rparr>)"
    by (simp add: analogWrite_def send_plain build_cmd_str_def Let_def cl1 del: max_min_distrib2 min_max_distrib2)
  have so: "pinModeDic b d = Some ''OUTPUT'' \<and> pinModeDic b c = Some ''OUTPUT''
        \<and> upper order \<in> {''MSBFIRST'', ''LSBFIRST''}
        \<and> \<not> write_err (sr b) \<and> \<not> flush_err (sr b) \<longrightarrow>
      shiftOut b d c order v =
        (Inr PNone,
         b\<lparr>sr := (sr b)\<lparr>written := written (sr b)
                    @ [''@so%'' @ str_int d @ ''%'' @ str_int c @ ''%'' @ upper order @ ''%''
                       @ str_int (max 0 (min 255 v)) @ ''$!'']\<rparr>\<rparr>)"
  proof (intro impI, elim conjE)
    assume d: "pinModeDic b d = Some ''OUTPUT''" and c: "pinModeDic b c = Some ''OUTPUT''"
      and o: "upper order \<in> {''MSBFIRST'', ''LSBFIRST''}"
      and w: "\<not> write_err (sr b)" and f: "\<not> flush_err (sr b)"
    from o have oo: "upper (upper order) = upper order"
      by (auto simp: upper_literals)
    from o have mem: "upper order \<in> set [''MSBFIRST'', ''LSBFIRST'']" by simp
    show "shiftOut b d c order v =
        (Inr PNone,
         b\<lparr>sr := (sr b)\<lparr>written := written (sr b)
                    @ [''@so%'' @ str_int d @ ''%'' @ str_int c @ ''%'' @ upper order @ ''%''
                       @ str_int (max 0 (min 255 v)) @ ''$!'']\<rparr>\<rparr>)"
      unfolding shiftOut_def Let_def cl2
      using d c w f mem by (simp add: oo send_strict build_cmd_str_def del: max_min_distrib2 min_max_distrib2 set_simps)
  qed
  have bounds: "0 \<le> max 0 (min 255 v) \<and> max 0 (min 255 v) \<le> 255
   \<and> (v > 255 \<longrightarrow> max 0 (min 255 v) = 255) \<and> (v < 0 \<longrightarrow> max 0 (min 255 v) = 0)"
    by auto
  from aw so bounds show ?thesis by blast
qed

text \<open>Pins 9 and 10 as outputs: 300 is sent as 255, -5 as 0 and 128 as itself.\<close>

theorem clamping_witness:
  "written (sr (snd (analogWrite ((board_of [])\<lparr>pinModeDic := [9 \<mapsto> ''OUTPUT'', 10 \<mapsto> ''OUTPUT'']\<rparr>) 9 300)))
     = [''@aw%9%255$!'']
   \<and> written (sr (snd (analogWrite ((board_of [])\<lparr>pinModeDic := [9 \<mapsto> ''OUTPUT'', 10 \<mapsto> ''OUTPUT'']\<rparr>) 9 (- 5))))
     = [''@aw%9%0$!'']
   \<and> written (sr (snd (analogWrite ((board_of [])\<lparr>pinModeDic := [9 \<mapsto> ''OUTPUT'', 10 \<mapsto> ''OUTPUT'']\<rparr>) 9 128)))
     = [''@aw%9%128$!'']
   \<and> written (sr (snd (shiftOut ((board_of [])\<lparr>pinModeDic := [9 \<mapsto> ''OUTPUT'', 10 \<mapsto> ''OUTPUT'']\<rparr>)
                          9 10 ''msbfirst'' 300)))
     = [''@so%9%10%MSBFIRST%255$!'']"
proof -
  let ?b = "(board_of [])\<lparr>pinModeDic := [9 \<mapsto> ''OUTPUT'', 10 \<mapsto> ''OUTPUT'']\<rparr>"
  have up: "upper ''msbfirst'' = ''MSBFIRST''"
    by (simp add: upper_def upper_char_def)
  have num: "str_int 9 = ''9''" "str_int 10 = ''10''" "str_int 255 = ''255''" "str_int 0 = ''0''"
    "str_int 128 = ''128''"
    by (simp_all add: str_int_def str_nat.simps digit_char_def)
  have pre: "pinModeDic ?b 9 = Some ''OUTPUT''" "pinModeDic ?b 10 = Some ''OUTPUT''"
    "\<not> write_err (sr ?b)" "\<not> flush_err (sr ?b)" "written (sr ?b) = []"
    by (simp_all add: board_of_def new_board_def stream_of_def)
  show ?thesis
    using clamping [of ?b 9 300 9 10 "''msbfirst''"] clamping [of ?b 9 "- 5" 9 10 "''msbfirst''"]
      clamping [of ?b 9 128 9 10 "''msbfirst''"] pre
    by (simp add: up num)
qed

subsection \<open>Software serial\<close>

text \<open>
  C7, as the code has it. Let the raw line that \<^verbatim>\<open>readline\<close> gives next be the reply
  (empty on a timeout). When the reply is well-formed UTF-8, \<^verbatim>\<open>SoftwareSerial.begin\<close>
  returns \<^verbatim>\<open>True\<close> and leaves the channel connected exactly when the reply without its
  line ends is \<^verbatim>\<open>ss OK\<close>, and otherwise returns \<^verbatim>\<open>False\<close> and leaves it disconnected.
  When the reply is not UTF-8, \<^verbatim>\<open>begin\<close> raises \<^verbatim>\<open>UnicodeDecodeError\<close> and the channel
  stays as it was. While the channel is disconnected, \<^verbatim>\<open>SoftwareSerial.write\<close> and
  \<^verbatim>\<open>SoftwareSerial.read\<close> return \<^verbatim>\<open>False\<close> and leave the object, and so the stream,
  untouched.
\<close>

theorem software_serial_states:
  "(utf8_ok (fst (readline (sr b))) \<longrightarrow>
      fst (begin_ss b p1 p2 baud) = Inr (PBool (replace_crlf (fst (readline (sr b))) = ''ss OK''))
      \<and> connected (snd (begin_ss b p1 p2 baud)) = (replace_crlf (fst (readline (sr b))) = ''ss OK''))
   \<and> (\<not> utf8_ok (fst (readline (sr b))) \<longrightarrow>
      fst (begin_ss b p1 p2 baud) = Inl UnicodeDecodeError
      \<and> connected (snd (begin_ss b p1 p2 baud)) = connected b)
   \<and> (\<not> connected b \<longrightarrow>
         SoftwareSerial_write b data = (Inr (PBool False), b)
       \<and> SoftwareSerial_read b = (Inr (PBool False), b))"
proof -
  let ?cmd = "build_cmd_str ''ss'' (Some [p1, p2, baud])"
  let ?b1 = "snd (send b ?cmd [])"
  have shape: "begin_ss b p1 p2 baud =
          (case fst (recv ?b1) of
             Inl e \<Rightarrow> (Inl e, snd (recv ?b1))
           | Inr response \<Rightarrow>
               (Inr (PBool (response = ''ss OK'')),
                (snd (recv ?b1))\<lparr>connected := (response = ''ss OK'')\<rparr>))"
    by (simp add: begin_ss_def Let_def case_prod_beta fst_send_plain split: sum.splits)
  have kept: "connected (snd (recv ?b1)) = connected b"
    by (simp add: fields_recv fields_send)
  have good: "utf8_ok (fst (readline (sr b))) \<longrightarrow>
      fst (begin_ss b p1 p2 baud) = Inr (PBool (replace_crlf (fst (readline (sr b))) = ''ss OK''))
      \<and> connected (snd (begin_ss b p1 p2 baud)) = (replace_crlf (fst (readline (sr b))) = ''ss OK'')"
    by (simp add: shape reply_after_send)
  have bad: "\<not> utf8_ok (fst (readline (sr b))) \<longrightarrow>
      fst (begin_ss b p1 p2 baud) = Inl UnicodeDecodeError
      \<and> connected (snd (begin_ss b p1 p2 baud)) = connected b"
    by (simp add: shape reply_after_send kept)
  have off: "\<not> connected b \<longrightarrow>
         SoftwareSerial_write b data = (Inr (PBool False), b)
       \<and> SoftwareSerial_read b = (Inr (PBool False), b)"
    by (simp add: SoftwareSerial_write_def SoftwareSerial_read_def)
  from good bad off show ?thesis by blast
qed

text \<open>A device that acknowledges, one that answers something else, one that answers with
  the byte FF, and a channel that was never opened.\<close>

theorem software_serial_states_witness:
  "fst (begin_ss (board_of [''ss OK'' @ crlf]) (AInt 2) (AInt 3) (AInt 9600)) = Inr (PBool True)
   \<and> connected (snd (begin_ss (board_of [''ss OK'' @ crlf]) (AInt 2) (AInt 3) (AInt 9600)))
   \<and> fst (begin_ss (board_of [''ss OK!'' @ crlf]) (AInt 2) (AInt 3) (AInt 9600)) = Inr (PBool False)
   \<and> \<not> connected (snd (begin_ss (board_of [''ss OK!'' @ crlf]) (AInt 2) (AInt 3) (AInt 9600)))
   \<and> fst (begin_ss (board_of [CHR 0xFF # crlf]) (AInt 2) (AInt 3) (AInt 9600))
       = Inl UnicodeDecodeError
   \<and> \<not> connected (snd (begin_ss (board_of [CHR 0xFF # crlf]) (AInt 2) (AInt 3) (AInt 9600)))
   \<and> SoftwareSerial_write (board_of [''ss OK'' @ crlf]) (AStr ''hi'')
       = (Inr (PBool False), board_of [''ss OK'' @ crlf])
   \<and> SoftwareSerial_read (board_of [''ss OK'' @ crlf])
       = (Inr (PBool False), board_of [''ss OK'' @ crlf])"
proof -
  have off: "\<not> connected (board_of ls)" for ls
    by (simp add: board_of_def new_board_def)
  show ?thesis
    using software_serial_states [of "board_of [''ss OK'' @ crlf]" "AInt 2" "AInt 3" "AInt 9600" "AStr ''hi''"]
      software_serial_states [of "board_of [''ss OK!'' @ crlf]" "AInt 2" "AInt 3" "AInt 9600" "AStr ''hi''"]
      software_serial_states [of "board_of [CHR 0xFF # crlf]" "AInt 2" "AInt 3" "AInt 9600" "AStr ''hi''"]
      off
    by (simp add: readline_def board_of_def new_board_def stream_of_def crlf_def utf8_ok_def)
qed

text \<open>
  C7 as the specification states it fails on a reply that is not UTF-8. A device
  acknowledges the first \<^verbatim>\<open>begin\<close>, so the channel is connected, and answers the second
  with the byte FF: the second \<^verbatim>\<open>begin\<close> raises instead of returning \<^verbatim>\<open>False\<close>, and the
  channel stays connected although the reply was not \<^verbatim>\<open>ss OK\<close>.
\<close>

theorem begin_undecodable_reply:
  "connected (snd (begin_ss (board_of [''ss OK'' @ crlf, CHR 0xFF # crlf]) (AInt 2) (AInt 3) (AInt 9600)))
   \<and> fst (readline (sr (snd (begin_ss (board_of [''ss OK'' @ crlf, CHR 0xFF # crlf])
                                    (AInt 2) (AInt 3) (AInt 9600)))))
       = CHR 0xFF # crlf
   \<and> fst (begin_ss (snd (begin_ss (board_of [''ss OK'' @ crlf, CHR 0xFF # crlf])
                            (AInt 2) (AInt 3) (AInt 9600)))
              (AInt 2) (AInt 3) (AInt 9600))
       = Inl UnicodeDecodeError
   \<and> connected (snd (begin_ss (snd (begin_ss (board_of [''ss OK'' @ crlf, CHR 0xFF # crlf])
                                        (AInt 2) (AInt 3) (AInt 9600)))
                          (AInt 2) (AInt 3) (AInt 9600)))"
  by (simp add: begin_ss_def Let_def send_plain recv_def rd_def readline_def decode_def utf8_ok_def
      board_of_def new_board_def stream_of_def crlf_def)

subsection \<open>Fallback values of the read operations\<close>

text \<open>
  C5. Let the raw line that \<^verbatim>\<open>readline\<close> gives next be the reply (empty on a timeout).
  When the reply is not UTF-8, or is text that \<^verbatim>\<open>int\<close> refuses, which includes the empty
  reply, \<^verbatim>\<open>analogRead\<close> and \<^verbatim>\<open>EEPROM.size\<close> return 0; when it is not UTF-8 or is text that
  \<^verbatim>\<open>float\<close> refuses, \<^verbatim>\<open>pulseIn\<close> (on an input pin, with a valid level) returns -1.
  \<^verbatim>\<open>EEPROM.read\<close> returns 0 on a reply that is not UTF-8 and on one that is not empty and
  that \<^verbatim>\<open>int\<close> refuses; on an empty reply it returns \<^verbatim>\<open>None\<close>, not 0.
\<close>

theorem read_fallbacks:
  "(\<not> utf8_ok (fst (readline (sr b))) \<longrightarrow>
      fst (analogRead I b p) = Inr (PInt 0) \<and> fst (EEPROM_size I b) = Inr (PInt 0)
      \<and> fst (EEPROM_read I b a) = Inr (PInt 0))
   \<and> (utf8_ok (fst (readline (sr b))) \<and> py_int I (replace_crlf (fst (readline (sr b)))) = None \<longrightarrow>
      fst (analogRead I b p) = Inr (PInt 0) \<and> fst (EEPROM_size I b) = Inr (PInt 0))
   \<and> (pinModeDic b p = Some ''INPUT'' \<and> upper val \<in> {''LOW'', ''HIGH''}
        \<and> \<not> utf8_ok (fst (readline (sr b))) \<longrightarrow>
      fst (pulseIn I b p val) = Inr (PInt (- 1)))
   \<and> (pinModeDic b p = Some ''INPUT'' \<and> upper val \<in> {''LOW'', ''HIGH''}
        \<and> utf8_ok (fst (readline (sr b)))
        \<and> py_float I (replace_crlf (fst (readline (sr b)))) = None \<longrightarrow>
      fst (pulseIn I b p val) = Inr (PInt (- 1)))
   \<and> (utf8_ok (fst (readline (sr b))) \<and> replace_crlf (fst (readline (sr b))) \<noteq> []
        \<and> py_int I (replace_crlf (fst (readline (sr b)))) = None \<longrightarrow>
      fst (EEPROM_read I b a) = Inr (PInt 0))
   \<and> (replace_crlf (fst (readline (sr b))) = [] \<longrightarrow> fst (EEPROM_read I b a) = Inr PNone)"
proof -
  let ?R = "fst (readline (sr b))"
  have ar: "\<not> utf8_ok ?R \<or> py_int I (replace_crlf ?R) = None
      \<Longrightarrow> fst (analogRead I b p) = Inr (PInt 0)"
    by (auto simp: analogRead_def Let_def case_prod_beta fst_send_plain reply_after_send)
  have sz: "\<not> utf8_ok ?R \<or> py_int I (replace_crlf ?R) = None
      \<Longrightarrow> fst (EEPROM_size I b) = Inr (PInt 0)"
    by (auto simp: EEPROM_size_def Let_def case_prod_beta reply_after_send split: sum.splits)
  have pi: "pinModeDic b p = Some ''INPUT'' \<Longrightarrow> upper val \<in> {''LOW'', ''HIGH''}
      \<Longrightarrow> \<not> utf8_ok ?R \<or> py_float I (replace_crlf ?R) = None
      \<Longrightarrow> fst (pulseIn I b p val) = Inr (PInt (- 1))"
    by (auto simp: pulseIn_def Let_def case_prod_beta fst_send_plain reply_after_send)
  have er_bad: "\<not> utf8_ok ?R \<Longrightarrow> fst (EEPROM_read I b a) = Inr (PInt 0)"
    by (simp add: EEPROM_read_def Let_def case_prod_beta fst_send_plain reply_after_send)
  have er0: "utf8_ok ?R \<Longrightarrow> replace_crlf ?R \<noteq> [] \<Longrightarrow> py_int I (replace_crlf ?R) = None
      \<Longrightarrow> fst (EEPROM_read I b a) = Inr (PInt 0)"
    by (simp add: EEPROM_read_def Let_def case_prod_beta fst_send_plain reply_after_send)
  have ern: "replace_crlf ?R = [] \<Longrightarrow> fst (EEPROM_read I b a) = Inr PNone"
    using only_line_ends_utf8 [of ?R]
    by (simp add: EEPROM_read_def Let_def case_prod_beta fst_send_plain reply_after_send)
  from ar sz pi er_bad er0 ern show ?thesis by blast
qed

text \<open>A silent device for each operation; a device answering \<^verbatim>\<open>n/a\<close> and one answering
  with the byte FF to \<^verbatim>\<open>EEPROM.read\<close>.\<close>

theorem read_fallbacks_witness:
  "fst (analogRead cpython (board_of []) 3) = Inr (PInt 0)
   \<and> fst (EEPROM_size cpython (board_of [])) = Inr (PInt 0)
   \<and> fst (pulseIn cpython ((board_of [])\<lparr>pinModeDic := [7 \<mapsto> ''INPUT'']\<rparr>) 7 ''HIGH'') = Inr (PInt (- 1))
   \<and> fst (EEPROM_read cpython (board_of [''n/a'' @ crlf]) 0) = Inr (PInt 0)
   \<and> fst (EEPROM_read cpython (board_of [CHR 0xFF # crlf]) 0) = Inr (PInt 0)
   \<and> fst (EEPROM_read cpython (board_of []) 0) = Inr PNone"
proof -
  have junk_int: "py_int cpython ''n/a'' = None"
    by (simp add: py_int_def strip_def is_space_def is_digit_def is_ascii_def digits_value_def)
  have mode: "pinModeDic ((board_of [])\<lparr>pinModeDic := [7 \<mapsto> ''INPUT'']\<rparr>) 7 = Some ''INPUT''"
    by simp
  show ?thesis
    using read_fallbacks [of "board_of []" cpython 3 0 "''HIGH''"]
      read_fallbacks [of "(board_of [])\<lparr>pinModeDic := [7 \<mapsto> ''INPUT'']\<rparr>" cpython 7 0 "''HIGH''"]
      read_fallbacks [of "board_of [''n/a'' @ crlf]" cpython 3 0 "''HIGH''"]
      read_fallbacks [of "board_of [CHR 0xFF # crlf]" cpython 3 0 "''HIGH''"]
      mode
    by (simp add: readline_def board_of_def new_board_def stream_of_def crlf_def utf8_ok_def
        junk_int py_int_empty py_float_empty upper_literals)
qed

subsection \<open>Connecting by explicit port\<close>

lemma looks_like_version_text:
  "looks_like_version (Some v) = (take 1 v = ''V'' \<or> v = ''version'')"
  by (cases v) (simp_all add: looks_like_version_def)

lemma looks_like_version_None: "\<not> looks_like_version None"
  by (simp add: looks_like_version_def)

lemma explicit_port_steps:
  assumes "opn (c # p) = Some s0"
  shows "Arduino_init opn candidates (Some (c # p)) None =
     (case get_version (snd (readline s0)) of
        (Inl e, s2) \<Rightarrow> (Inl e, [])
      | (Inr version, s2) \<Rightarrow>
          finish_init s2
            (if version \<noteq> Some libraryVersion \<and> looks_like_version version
             then version_warning version else []))"
  using assms
  by (simp add: Arduino_init_def case_prod_beta split: sum.splits prod.splits)

lemma get_version_after_boot:
  "get_version (snd (readline s0)) =
     (if write_err s0 then (Inr None, s0\<lparr>incoming := drop 1 (incoming s0)\<rparr>)
      else if flush_err s0
      then (Inr None, s0\<lparr>incoming := drop 1 (incoming s0),
                           written := written s0 @ [''@version%$!'']\<rparr>)
      else if utf8_ok (fst (readline (snd (readline s0))))
      then (Inr (Some (replace_crlf (fst (readline (snd (readline s0)))))),
            s0\<lparr>incoming := drop 2 (incoming s0), written := written s0 @ [''@version%$!'']\<rparr>)
      else (Inl UnicodeDecodeError,
            s0\<lparr>incoming := drop 2 (incoming s0), written := written s0 @ [''@version%$!'']\<rparr>))"
proof (cases "incoming s0")
  case Nil
  then show ?thesis
    by (simp add: get_version_def readline_def sr_write_def sr_flush_def decode_def Let_def
        build_cmd_str_def)
next
  case (Cons boot rest)
  then show ?thesis
    by (cases rest)
      (simp_all add: get_version_def readline_def sr_write_def sr_flush_def decode_def Let_def
        build_cmd_str_def)
qed

text \<open>
  C4, as the code has it. The port is given, opening it succeeds and the final \<^verbatim>\<open>flush\<close>
  does not raise; the reply is the raw line read after the boot line (empty on a
  timeout). When the version query can be written and the reply is well-formed UTF-8,
  the object is always created, whatever the reply says and also when it is empty, and
  the four warning lines are printed exactly when the reply without its line ends
  differs from the library version and either starts with \<^verbatim>\<open>V\<close> or is the word
  \<^verbatim>\<open>version\<close>; every other reply that differs is accepted without a message. When the
  reply is not UTF-8, \<^verbatim>\<open>UnicodeDecodeError\<close> is raised and no object is created. When the
  query cannot be written, the object is created without a message.
\<close>

theorem explicit_port_handshake:
  "name \<noteq> [] \<and> opn name = Some s0 \<and> \<not> flush_err s0 \<longrightarrow>
     (\<not> write_err s0 \<and> utf8_ok (fst (readline (snd (readline s0)))) \<longrightarrow>
        Arduino_init opn candidates (Some name) None =
          (Inr (new_board (s0\<lparr>incoming := drop 2 (incoming s0),
                               written := written s0 @ [''@version%$!'']\<rparr>)),
           if replace_crlf (fst (readline (snd (readline s0)))) \<noteq> libraryVersion
              \<and> (take 1 (replace_crlf (fst (readline (snd (readline s0))))) = ''V''
                   \<or> replace_crlf (fst (readline (snd (readline s0)))) = ''version'')
           then version_warning (Some (replace_crlf (fst (readline (snd (readline s0))))))
           else []))
     \<and> (\<not> write_err s0 \<and> \<not> utf8_ok (fst (readline (snd (readline s0)))) \<longrightarrow>
        Arduino_init opn candidates (Some name) None = (Inl UnicodeDecodeError, []))
     \<and> (write_err s0 \<longrightarrow>
        Arduino_init opn candidates (Some name) None =
          (Inr (new_board (s0\<lparr>incoming := drop 1 (incoming s0)\<rparr>)), []))"
proof (intro impI, elim conjE)
  assume n: "name \<noteq> []" and o: "opn name = Some s0" and f: "\<not> flush_err s0"
  from n obtain c p where name: "name = c # p" by (cases name) auto
  from o have o': "opn (c # p) = Some s0" by (simp add: name)
  note steps = explicit_port_steps [of opn c p s0 candidates, OF o']
  let ?R = "fst (readline (snd (readline s0)))"
  have good: "\<not> write_err s0 \<and> utf8_ok ?R \<longrightarrow>
        Arduino_init opn candidates (Some name) None =
          (Inr (new_board (s0\<lparr>incoming := drop 2 (incoming s0),
                               written := written s0 @ [''@version%$!'']\<rparr>)),
           if replace_crlf ?R \<noteq> libraryVersion
              \<and> (take 1 (replace_crlf ?R) = ''V'' \<or> replace_crlf ?R = ''version'')
           then version_warning (Some (replace_crlf ?R))
           else [])"
    using f unfolding name steps get_version_after_boot
    by (simp add: finish_init_def sr_flush_def looks_like_version_text)
  have bad: "\<not> write_err s0 \<and> \<not> utf8_ok ?R \<longrightarrow>
        Arduino_init opn candidates (Some name) None = (Inl UnicodeDecodeError, [])"
    using f unfolding name steps get_version_after_boot by simp
  have unsent: "write_err s0 \<longrightarrow>
        Arduino_init opn candidates (Some name) None =
          (Inr (new_board (s0\<lparr>incoming := drop 1 (incoming s0)\<rparr>)), [])"
    using f unfolding name steps get_version_after_boot
    by (simp add: finish_init_def sr_flush_def looks_like_version_None)
  from good bad unsent
  show "(\<not> write_err s0 \<and> utf8_ok ?R \<longrightarrow>
        Arduino_init opn candidates (Some name) None =
          (Inr (new_board (s0\<lparr>incoming := drop 2 (incoming s0),
                               written := written s0 @ [''@version%$!'']\<rparr>)),
           if replace_crlf ?R \<noteq> libraryVersion
              \<and> (take 1 (replace_crlf ?R) = ''V'' \<or> replace_crlf ?R = ''version'')
           then version_warning (Some (replace_crlf ?R))
           else []))
     \<and> (\<not> write_err s0 \<and> \<not> utf8_ok ?R \<longrightarrow>
        Arduino_init opn candidates (Some name) None = (Inl UnicodeDecodeError, []))
     \<and> (write_err s0 \<longrightarrow>
        Arduino_init opn candidates (Some name) None =
          (Inr (new_board (s0\<lparr>incoming := drop 1 (incoming s0)\<rparr>)), []))"
    by blast
qed

text \<open>A sketch of an older version, one of the library's version, one answering
  \<^verbatim>\<open>version\<close> and one answering with the byte FF, each after one boot line; and a stream
  that refuses the write.\<close>

theorem explicit_port_handshake_witness:
  "Arduino_init (\<lambda>_. Some (stream_of [''boot'' @ crlf, ''V0.5'' @ crlf])) [] (Some ''COM3'') None
     = (Inr (new_board ((stream_of [])\<lparr>written := [''@version%$!'']\<rparr>)),
        version_warning (Some ''V0.5''))
   \<and> Arduino_init (\<lambda>_. Some (stream_of [''boot'' @ crlf, ''V0.6'' @ crlf])) [] (Some ''COM3'') None
     = (Inr (new_board ((stream_of [])\<lparr>written := [''@version%$!'']\<rparr>)), [])
   \<and> Arduino_init (\<lambda>_. Some (stream_of [''boot'' @ crlf, ''version'' @ crlf])) [] (Some ''COM3'') None
     = (Inr (new_board ((stream_of [])\<lparr>written := [''@version%$!'']\<rparr>)),
        version_warning (Some ''version''))
   \<and> Arduino_init (\<lambda>_. Some (stream_of [''boot'' @ crlf, CHR 0xFF # crlf])) [] (Some ''COM3'') None
     = (Inl UnicodeDecodeError, [])
   \<and> Arduino_init (\<lambda>_. Some ((stream_of [''boot'' @ crlf, ''V0.5'' @ crlf])\<lparr>write_err := True\<rparr>))
        [] (Some ''COM3'') None
     = (Inr (new_board ((stream_of [''V0.5'' @ crlf])\<lparr>write_err := True\<rparr>)), [])"
  using explicit_port_handshake [of "''COM3''" "\<lambda>_. Some (stream_of [''boot'' @ crlf, ''V0.5'' @ crlf])"
      "stream_of [''boot'' @ crlf, ''V0.5'' @ crlf]" "[]"]
    explicit_port_handshake [of "''COM3''" "\<lambda>_. Some (stream_of [''boot'' @ crlf, ''V0.6'' @ crlf])"
      "stream_of [''boot'' @ crlf, ''V0.6'' @ crlf]" "[]"]
    explicit_port_handshake [of "''COM3''" "\<lambda>_. Some (stream_of [''boot'' @ crlf, ''version'' @ crlf])"
      "stream_of [''boot'' @ crlf, ''version'' @ crlf]" "[]"]
    explicit_port_handshake [of "''COM3''" "\<lambda>_. Some (stream_of [''boot'' @ crlf, CHR 0xFF # crlf])"
      "stream_of [''boot'' @ crlf, CHR 0xFF # crlf]" "[]"]
    explicit_port_handshake [of "''COM3''"
      "\<lambda>_. Some ((stream_of [''boot'' @ crlf, ''V0.5'' @ crlf])\<lparr>write_err := True\<rparr>)"
      "(stream_of [''boot'' @ crlf, ''V0.5'' @ crlf])\<lparr>write_err := True\<rparr>" "[]"]
  by (simp add: readline_def stream_of_def crlf_def utf8_ok_def libraryVersion_def)

text \<open>
  C4 as the specification states it fails twice. A device answering \<^verbatim>\<open>hello\<close>
  differs from the library version, yet nothing is printed and the object is created;
  and a device that sends nothing at all (the reply read is the empty text) also gets
  its object: no response is not a connection failure on this path.
\<close>

theorem explicit_port_silent_mismatch:
  "fst (get_version (snd (readline (stream_of [''boot'' @ crlf, ''hello'' @ crlf]))))
     = Inr (Some ''hello'')
   \<and> ''hello'' \<noteq> libraryVersion
   \<and> Arduino_init (\<lambda>_. Some (stream_of [''boot'' @ crlf, ''hello'' @ crlf])) [] (Some ''COM3'') None
     = (Inr (new_board ((stream_of [])\<lparr>written := [''@version%$!'']\<rparr>)), [])
   \<and> fst (get_version (snd (readline (stream_of [])))) = Inr (Some '''')
   \<and> Arduino_init (\<lambda>_. Some (stream_of [])) [] (Some ''COM3'') None
     = (Inr (new_board ((stream_of [])\<lparr>written := [''@version%$!'']\<rparr>)), [])"
  by (simp add: Arduino_init_def finish_init_def get_version_def readline_def decode_def utf8_ok_def
      stream_of_def sr_write_def sr_flush_def build_cmd_str_def crlf_def libraryVersion_def
      looks_like_version_def)

subsection \<open>Two calls that always fail\<close>

text \<open>
  C9. Every call of \<^verbatim>\<open>pulseIn_set\<close>, for any pin, level and number of trials, fails with
  a name-resolution error on \<^verbatim>\<open>numtrials\<close> (the parameter is \<^verbatim>\<open>numTrials\<close>) and leaves
  the object as it was: no \<^verbatim>\<open>ps\<close> frame is written and no duration is returned.
\<close>

theorem pulseIn_set_fails:
  "pulseIn_set I b pin val numTrials = (Inl (UnboundLocalError ''numtrials''), b)"
  by (simp add: pulseIn_set_def pulseIn_set_frame_def Let_def)




subsection \<open>Servo bindings\<close>


lemma attach_loop_first_reply:
  assumes "\<not> write_err (sr b)" "\<not> flush_err (sr b)" "incoming (sr b) = l # ls"
    "utf8_ok l" "replace_crlf l \<noteq> []"
  shows "attach_loop b cmd_str =
           Some (Inr (replace_crlf l),
                 b\<lparr>sr := (sr b)\<lparr>written := written (sr b) @ [cmd_str], incoming := ls\<rparr>\<rparr>)"
  using assms
  by (subst attach_loop.simps) (simp add: send_strict recv_def rd_def readline_def decode_def)

lemma attach_loop_bad_reply:
  assumes "\<not> write_err (sr b)" "\<not> flush_err (sr b)" "incoming (sr b) = l # ls"
    "\<not> utf8_ok l"
  shows "attach_loop b cmd_str =
           Some (Inl UnicodeDecodeError,
                 b\<lparr>sr := (sr b)\<lparr>written := written (sr b) @ [cmd_str], incoming := ls\<rparr>\<rparr>)"
  using assms
  by (subst attach_loop.simps) (simp add: send_strict recv_def rd_def readline_def decode_def)

lemma attach_loop_returns:
  "\<not> write_err (sr b) \<Longrightarrow> \<not> flush_err (sr b) \<Longrightarrow>
   \<exists>l \<in> set (incoming (sr b)). replace_crlf l \<noteq> [] \<Longrightarrow>
   \<exists>y. attach_loop b cmd_str = Some y"
proof (induction ls \<equiv> "incoming (sr b)" arbitrary: b)
  case Nil
  then show ?case by simp
next
  case (Cons l ls)
  show ?case
  proof (cases "utf8_ok l")
    case False
    with Cons.prems Cons.hyps(2) [symmetric] show ?thesis
      by (simp add: attach_loop_bad_reply)
  next
    case ok: True
    show ?thesis
    proof (cases "replace_crlf l = []")
      case False
      with ok Cons.prems Cons.hyps(2) [symmetric] show ?thesis
        by (simp add: attach_loop_first_reply)
    next
      case True
      let ?b2 = "b\<lparr>sr := (sr b)\<lparr>written := written (sr b) @ [cmd_str], incoming := ls\<rparr>\<rparr>"
      have unfold: "attach_loop b cmd_str = attach_loop ?b2 cmd_str"
        using Cons.prems(1,2) Cons.hyps(2) [symmetric] True ok
        by (subst attach_loop.simps) (simp add: send_strict recv_def rd_def readline_def decode_def)
      have "\<exists>y. attach_loop ?b2 cmd_str = Some y"
      proof (rule Cons.hyps(1))
        show "ls = incoming (sr ?b2)" by simp
        show "\<not> write_err (sr ?b2)" "\<not> flush_err (sr ?b2)" using Cons.prems(1,2) by simp_all
        from Cons.prems(3) Cons.hyps(2) [symmetric] True
        show "\<exists>l \<in> set (incoming (sr ?b2)). replace_crlf l \<noteq> []" by auto
      qed
      with unfold show ?thesis by simp
    qed
  qed
qed

lemma attach_loop_silent:
  assumes "incoming (sr b) = []" "\<not> write_err (sr b)" "\<not> flush_err (sr b)"
  shows "attach_loop b cmd_str = None"
proof (rule ccontr)
  assume "attach_loop b cmd_str \<noteq> None"
  then obtain y where y: "attach_loop b cmd_str = Some y" by auto
  have "\<not> (incoming (sr b) = [] \<and> \<not> write_err (sr b) \<and> \<not> flush_err (sr b))"
  proof (rule attach_loop.raw_induct [OF _ y])
    fix loop :: "board \<Rightarrow> string \<Rightarrow> ((py_error + string) \<times> board) option"
      and b cmd_str y
    assume IH: "\<And>b cmd_str y. loop b cmd_str = Some y \<Longrightarrow>
        \<not> (incoming (sr b) = [] \<and> \<not> write_err (sr b) \<and> \<not> flush_err (sr b))"
      and step: "(case send b cmd_str [(''raise_error'', True)] of
        (Inl e, b1) \<Rightarrow> Some (Inl e, b1)
      | (Inr u, b1) \<Rightarrow>
          (case recv b1 of
             (Inl e, b2) \<Rightarrow> Some (Inl e, b2)
           | (Inr response, b2) \<Rightarrow>
               if response \<noteq> [] then Some (Inr response, b2)
               else loop b2 cmd_str)) = Some y"
    show "\<not> (incoming (sr b) = [] \<and> \<not> write_err (sr b) \<and> \<not> flush_err (sr b))"
    proof
      assume quiet: "incoming (sr b) = [] \<and> \<not> write_err (sr b) \<and> \<not> flush_err (sr b)"
      let ?b2 = "b\<lparr>sr := (sr b)\<lparr>written := written (sr b) @ [cmd_str]\<rparr>\<rparr>"
      from step quiet have "loop ?b2 cmd_str = Some y"
        by (simp add: send_strict recv_def rd_def readline_def decode_def utf8_ok_def)
      from IH [OF this] quiet show False by simp
    qed
  qed
  with assms show False by simp
qed



end
